theory Spec2Isabelle
  imports Complex_Main "HOL-Library.Word" "HOL-Library.Log_Nat" "HOL-Library.Signed_Division"
begin

section \<open>Go strings and the standard-library functions the package calls\<close>

text \<open>
  A Go string is a sequence of bytes, here a \<open>string\<close> (\<open>char list\<close>, one \<open>char\<close> per byte).
  \<open>strings.Fields\<close> and \<open>strings.TrimSpace\<close> treat as white space every rune for which
  \<open>unicode.IsSpace\<close> holds: the six ASCII characters tab, line feed, vertical tab, form feed,
  carriage return and space, U+0085, U+00A0, U+1680, U+2000 to U+200A, U+2028, U+2029, U+202F,
  U+205F and U+3000. \<open>spaceWidth s\<close> is the number of bytes of the UTF-8 encoding of such a
  rune at the head of \<open>s\<close>, and 0 when \<open>s\<close> does not start with one. The first byte of each of
  these encodings is never a continuation byte, so it is always the start of a rune for Go's
  decoder, which takes an invalid byte as a rune of width one that is not white space.
\<close>

fun spaceWidth :: "string \<Rightarrow> nat" where
  "spaceWidth [] = 0"
| "spaceWidth (c # cs) =
     (let b = (of_char c :: nat) in
      if b = 9 \<or> b = 10 \<or> b = 11 \<or> b = 12 \<or> b = 13 \<or> b = 32 then 1
      else if b = 0xC2 then
        (case cs of
           d # _ \<Rightarrow> if (of_char d :: nat) = 0x85 \<or> (of_char d :: nat) = 0xA0 then 2 else 0
         | [] \<Rightarrow> 0)
      else if b = 0xE1 then
        (case cs of
           d # e # _ \<Rightarrow> if (of_char d :: nat) = 0x9A \<and> (of_char e :: nat) = 0x80 then 3 else 0
         | _ \<Rightarrow> 0)
      else if b = 0xE2 then
        (case cs of
           d # e # _ \<Rightarrow>
             (let x = (of_char d :: nat); y = (of_char e :: nat) in
              if (x = 0x80 \<and> ((0x80 \<le> y \<and> y \<le> 0x8A) \<or> y = 0xA8 \<or> y = 0xA9 \<or> y = 0xAF))
                 \<or> (x = 0x81 \<and> y = 0x9F) then 3 else 0)
         | _ \<Rightarrow> 0)
      else if b = 0xE3 then
        (case cs of
           d # e # _ \<Rightarrow> if (of_char d :: nat) = 0x80 \<and> (of_char e :: nat) = 0x80 then 3 else 0
         | _ \<Rightarrow> 0)
      else 0)"

text \<open>
  \<open>spaceMask 0 s\<close> marks every byte of \<open>s\<close> that belongs to a white-space rune; the counter
  is the number of bytes of the current white-space rune still to be marked.
\<close>

fun spaceMask :: "nat \<Rightarrow> string \<Rightarrow> bool list" where
  "spaceMask k [] = []"
| "spaceMask k (c # cs) =
     (if 0 < k then True # spaceMask (k - 1) cs
      else (let w = spaceWidth (c # cs) in
            if 0 < w then True # spaceMask (w - 1) cs else False # spaceMask 0 cs))"

definition flush :: "string \<Rightarrow> string list" where
  "flush cur = (if cur = [] then [] else [cur])"

fun tokens :: "string \<Rightarrow> (char \<times> bool) list \<Rightarrow> string list" where
  "tokens cur [] = flush cur"
| "tokens cur ((c, sp) # r) = (if sp then flush cur @ tokens [] r else tokens (cur @ [c]) r)"

text \<open>\<open>strings.Fields\<close>: the maximal runs of bytes outside white space, in order.\<close>

definition Fields :: "string \<Rightarrow> string list" where
  "Fields s = tokens [] (zip s (spaceMask 0 s))"

text \<open>\<open>strings.TrimSpace\<close>: the string without its leading and trailing white space.\<close>

definition TrimSpace :: "string \<Rightarrow> string" where
  "TrimSpace s = map fst (rev (dropWhile snd (rev (dropWhile snd (zip s (spaceMask 0 s))))))"

text \<open>\<open>strings.HasPrefix\<close>.\<close>

definition HasPrefix :: "string \<Rightarrow> string \<Rightarrow> bool" where
  "HasPrefix s pre \<longleftrightarrow> length pre \<le> length s \<and> take (length pre) s = pre"

text \<open>
  \<open>strings.Split\<close> with a separator of one byte, the only use the package makes of it:
  the pieces between the occurrences of the separator, at least one piece.
\<close>

fun splitByte :: "char \<Rightarrow> string \<Rightarrow> string \<Rightarrow> string list" where
  "splitByte sep cur [] = [cur]"
| "splitByte sep cur (c # cs) =
     (if c = sep then cur # splitByte sep [] cs else splitByte sep (cur @ [c]) cs)"

definition Split :: "string \<Rightarrow> char \<Rightarrow> string list" where
  "Split s sep = splitByte sep [] s"

datatype error = ErrSyntax | ErrRange | PathError string

type_synonym uint64 = "64 word"
type_synonym int64 = "64 word"

definition digitVal :: "char \<Rightarrow> nat option" where
  "digitVal c = (let b = (of_char c :: nat) in if 48 \<le> b \<and> b \<le> 57 then Some (b - 48) else None)"

text \<open>
  The digit loop of \<open>strconv.ParseUint\<close> in base 10 at 64 bits: a byte that is not a decimal
  digit is a syntax error; the accumulator reaching the cutoff \<open>(2^64 - 1) div 10 + 1\<close> before
  a further digit, or the next value passing \<open>2^64 - 1\<close>, is a range error.
\<close>

fun parseDigits :: "nat \<Rightarrow> string \<Rightarrow> error + nat" where
  "parseDigits n [] = Inr n"
| "parseDigits n (c # cs) =
     (case digitVal c of
        None \<Rightarrow> Inl ErrSyntax
      | Some d \<Rightarrow>
          if 1844674407370955162 \<le> n then Inl ErrRange
          else if 18446744073709551615 < n * 10 + d then Inl ErrRange
          else parseDigits (n * 10 + d) cs)"

definition parseUint64 :: "string \<Rightarrow> error + uint64" where
  "parseUint64 s =
     (if s = [] then Inl ErrSyntax
      else case parseDigits 0 s of Inl e \<Rightarrow> Inl e | Inr n \<Rightarrow> Inr (word_of_nat n))"

text \<open>
  \<open>strconv.ParseInt\<close> in base 10 at 64 bits: an optional sign, then the unsigned digits;
  a range error of the unsigned parse continues with the value \<open>2^64 - 1\<close>, which the range
  check of the signed value then rejects.
\<close>

definition parseInt64 :: "string \<Rightarrow> error + int64" where
  "parseInt64 s =
     (case s of
        [] \<Rightarrow> Inl ErrSyntax
      | c # cs \<Rightarrow>
          (let neg = (c = CHR ''-'');
               s1 = (if c = CHR ''+'' \<or> c = CHR ''-'' then cs else s);
               r = parseUint64 s1
           in case r of
                Inl ErrSyntax \<Rightarrow> Inl ErrSyntax
              | Inl (PathError p) \<Rightarrow> Inl (PathError p)
              | _ \<Rightarrow>
                 (let un = (case r of Inr v \<Rightarrow> v | Inl _ \<Rightarrow> (- 1 :: uint64)) in
                  if \<not> neg \<and> 9223372036854775808 \<le> un then Inl ErrRange
                  else if neg \<and> 9223372036854775808 < un then Inl ErrRange
                  else Inr (if neg then - un else un))))"

section \<open>IEEE 754 binary64 arithmetic\<close>

text \<open>
  A \<open>float64\<close> is a sign and a magnitude, an infinity with its sign, or a NaN. The magnitude of
  a finite value is the rational it denotes; \<open>Finite True 0\<close> is the negative zero. Every
  operation rounds its exact result to the nearest representable value, ties to even
  (\<open>f64_round\<close>): the unit in the last place of a magnitude \<open>q\<close> is \<open>2^(e - 52)\<close> for
  \<open>e = max \<lfloor>log\<^sub>2 q\<rfloor> (-1022)\<close>, and a rounded magnitude of \<open>2^1024\<close> or more overflows to
  infinity. \<open>ilog2 q\<close> is \<open>\<lfloor>log\<^sub>2 q\<rfloor>\<close> for a positive rational \<open>q\<close>, computed from the number of
  bits of \<open>\<lfloor>q\<rfloor>\<close> when \<open>1 \<le> q\<close> and of \<open>\<lceil>1 / q\<rceil> - 1\<close> otherwise.
\<close>

datatype float64 = Finite bool rat | Infinity bool | NaN

definition ilog2 :: "rat \<Rightarrow> int" where
  "ilog2 q = (if 1 \<le> q then bitlen \<lfloor>q\<rfloor> - 1 else - bitlen (\<lceil>1 / q\<rceil> - 1))"

definition rne :: "rat \<Rightarrow> int" where
  "rne x = (let n = \<lfloor>x\<rfloor>; f = x - of_int n in
     if f < 1 / 2 then n else if 1 / 2 < f then n + 1 else if even n then n else n + 1)"

definition f64_round :: "bool \<Rightarrow> rat \<Rightarrow> float64" where
  "f64_round s q =
     (if q = 0 then Finite s 0
      else let e = max (ilog2 q) (- 1022); u = 2 powi (e - 52); r = of_int (rne (q / u)) * u
           in if 2 ^ 1024 \<le> r then Infinity s else Finite s r)"

definition f64_of_int :: "int \<Rightarrow> float64" where
  "f64_of_int i = f64_round (i < 0) (of_int \<bar>i\<bar>)"

definition f64_div :: "float64 \<Rightarrow> float64 \<Rightarrow> float64" where
  "f64_div x y =
     (case (x, y) of
        (NaN, _) \<Rightarrow> NaN
      | (_, NaN) \<Rightarrow> NaN
      | (Infinity s, Infinity t) \<Rightarrow> NaN
      | (Infinity s, Finite t b) \<Rightarrow> Infinity (s \<noteq> t)
      | (Finite s a, Infinity t) \<Rightarrow> Finite (s \<noteq> t) 0
      | (Finite s a, Finite t b) \<Rightarrow>
          if b = 0 then (if a = 0 then NaN else Infinity (s \<noteq> t))
          else f64_round (s \<noteq> t) (a / b))"

definition f64_mul :: "float64 \<Rightarrow> float64 \<Rightarrow> float64" where
  "f64_mul x y =
     (case (x, y) of
        (NaN, _) \<Rightarrow> NaN
      | (_, NaN) \<Rightarrow> NaN
      | (Infinity s, Infinity t) \<Rightarrow> Infinity (s \<noteq> t)
      | (Infinity s, Finite t b) \<Rightarrow> if b = 0 then NaN else Infinity (s \<noteq> t)
      | (Finite s a, Infinity t) \<Rightarrow> if a = 0 then NaN else Infinity (s \<noteq> t)
      | (Finite s a, Finite t b) \<Rightarrow> f64_round (s \<noteq> t) (a * b))"

definition isFinite :: "float64 \<Rightarrow> bool" where
  "isFinite x = (case x of Finite _ _ \<Rightarrow> True | _ \<Rightarrow> False)"

text \<open>The constants \<open>0\<close> and \<open>100\<close> of the source, converted to \<open>float64\<close>.\<close>

definition f64_zero :: float64 where
  "f64_zero = Finite False 0"

definition f64_hundred :: float64 where
  "f64_hundred = Finite False 100"

text \<open>The conversions \<open>float64(x)\<close> of an \<open>int64\<close> and of a \<open>uint64\<close>.\<close>

definition f64_of_int64 :: "int64 \<Rightarrow> float64" where
  "f64_of_int64 w = f64_of_int (sint w)"

definition f64_of_uint64 :: "uint64 \<Rightarrow> float64" where
  "f64_of_uint64 w = f64_of_int (uint w)"

section \<open>Time\<close>

text \<open>
  A \<open>time.Time\<close> carries a wall-clock instant and, when it comes from \<open>time.Now\<close>, a reading of
  the monotonic clock; both are counted in nanoseconds here. \<open>Sub\<close> takes the difference of the
  monotonic readings when both times have one and of the wall-clock instants otherwise, and
  saturates at the least and greatest \<open>Duration\<close>. A \<open>Duration\<close> is an \<open>int64\<close> of nanoseconds.
\<close>

record Time =
  hasMonotonic :: bool
  mono :: int64
  wall :: int

type_synonym Duration = int64

definition zeroTime :: Time where
  "zeroTime = \<lparr>hasMonotonic = False, mono = 0, wall = 0\<rparr>"

definition minDuration :: Duration where
  "minDuration = word_of_int (- (2 ^ 63))"

definition maxDuration :: Duration where
  "maxDuration = word_of_int (2 ^ 63 - 1)"

definition subMono :: "int64 \<Rightarrow> int64 \<Rightarrow> Duration" where
  "subMono t u =
     (let d = t - u in
      if sint d < 0 \<and> sint u < sint t then maxDuration
      else if 0 < sint d \<and> sint t < sint u then minDuration
      else d)"

definition Sub :: "Time \<Rightarrow> Time \<Rightarrow> Duration" where
  "Sub t u =
     (if hasMonotonic t \<and> hasMonotonic u then subMono (mono t) (mono u)
      else let d = wall t - wall u in
           if d < - (2 ^ 63) then minDuration
           else if 2 ^ 63 - 1 < d then maxDuration
           else word_of_int d)"

text \<open>\<open>Duration.Microseconds\<close>: the integer division of Go, which truncates towards zero.\<close>

definition Microseconds :: "Duration \<Rightarrow> int64" where
  "Microseconds d = word_of_int (sint d sdiv 1000)"

section \<open>The monitor\<close>

text \<open>
  The file system is a function from a path to the bytes of the file or the error of
  \<open>os.ReadFile\<close>. The mutex of the monitor has no counterpart: every operation below is one
  sequential call.
\<close>

type_synonym fs = "string \<Rightarrow> error + string"

record Monitor =
  cgroupPath :: string
  lastCPUUsageUsec :: uint64
  lastCPUSampleTime :: Time
  hasBaseline :: bool

definition defaultCgroupPath :: string where
  "defaultCgroupPath = ''/sys/fs/cgroup''"

definition unlimitedValue :: string where
  "unlimitedValue = ''max''"

definition WithCgroupPath :: "string \<Rightarrow> Monitor \<Rightarrow> Monitor" where
  "WithCgroupPath path m = m\<lparr>cgroupPath := path\<rparr>"

definition NewMonitor :: "(Monitor \<Rightarrow> Monitor) list \<Rightarrow> Monitor" where
  "NewMonitor opts =
     fold (\<lambda>opt m. opt m) opts
       \<lparr>cgroupPath = defaultCgroupPath, lastCPUUsageUsec = 0,
        lastCPUSampleTime = zeroTime, hasBaseline = False\<rparr>"

definition readFile :: "fs \<Rightarrow> string \<Rightarrow> error + string" where
  "readFile files path = (case files path of Inl err \<Rightarrow> Inl err | Inr data \<Rightarrow> Inr (TrimSpace data))"

fun usageLoop :: "string list \<Rightarrow> uint64" where
  "usageLoop [] = 0"
| "usageLoop (line # rest) =
     (if \<not> HasPrefix line ''usage_usec '' then usageLoop rest
      else let parts = Fields line in
           if length parts \<noteq> 2 then usageLoop rest
           else case parseUint64 (parts ! 1) of
                  Inl _ \<Rightarrow> usageLoop rest
                | Inr val \<Rightarrow> val)"

definition parseCPUStatUsage :: "string \<Rightarrow> uint64" where
  "parseCPUStatUsage content = usageLoop (Split content (CHR 0x0A))"

text \<open>
  \<open>readCPU\<close> returns (percent, limitCores, error) and the monitor as the call leaves it;
  \<open>now\<close> is the value of \<open>time.Now()\<close> at the call.
\<close>

definition readCPU ::
  "fs \<Rightarrow> Time \<Rightarrow> Monitor \<Rightarrow> (float64 \<times> float64 \<times> error option) \<times> Monitor" where
  "readCPU files now m =
     (case readFile files (cgroupPath m @ ''/cpu.max'') of
        Inl err \<Rightarrow> ((f64_zero, f64_zero, Some err), m)
      | Inr cpuMax \<Rightarrow>
         (let parts = Fields cpuMax in
          if length parts \<noteq> 2 then ((f64_zero, f64_zero, None), m)
          else if parts ! 0 = unlimitedValue then ((f64_zero, f64_zero, None), m)
          else
           (case parseInt64 (parts ! 0) of
              Inl _ \<Rightarrow> ((f64_zero, f64_zero, None), m)
            | Inr quota \<Rightarrow>
               if sint quota \<le> 0 then ((f64_zero, f64_zero, None), m)
               else
                (case parseInt64 (parts ! 1) of
                   Inl _ \<Rightarrow> ((f64_zero, f64_zero, None), m)
                 | Inr period \<Rightarrow>
                    if period = 0 then ((f64_zero, f64_zero, None), m)
                    else
                     (let cpuLimitCores = f64_div (f64_of_int64 quota) (f64_of_int64 period) in
                      (case readFile files (cgroupPath m @ ''/cpu.stat'') of
                         Inl err \<Rightarrow> ((f64_zero, cpuLimitCores, Some err), m)
                       | Inr cpuStat \<Rightarrow>
                          (let usageUsec = parseCPUStatUsage cpuStat in
                           if \<not> hasBaseline m then
                             ((f64_zero, cpuLimitCores, None),
                              m\<lparr>lastCPUUsageUsec := usageUsec, lastCPUSampleTime := now,
                                hasBaseline := True\<rparr>)
                           else if usageUsec < lastCPUUsageUsec m then
                             ((f64_zero, cpuLimitCores, None),
                              m\<lparr>lastCPUUsageUsec := usageUsec, lastCPUSampleTime := now\<rparr>)
                           else
                            (let usageDelta = f64_of_uint64 (usageUsec - lastCPUUsageUsec m);
                                 timeDelta = Sub now (lastCPUSampleTime m)
                             in if timeDelta = 0 then ((f64_zero, cpuLimitCores, None), m)
                                else
                                 (let elapsedUsec = f64_of_int64 (Microseconds timeDelta);
                                      coresUsed = f64_div usageDelta elapsedUsec;
                                      cpuPercent =
                                        f64_mul (f64_div coresUsed cpuLimitCores) f64_hundred
                                  in ((cpuPercent, cpuLimitCores, None),
                                      m\<lparr>lastCPUUsageUsec := usageUsec,
                                        lastCPUSampleTime := now\<rparr>))))))))))"

text \<open>\<open>readMemory\<close> returns (percent, currentBytes, limitBytes, error).\<close>

definition readMemory :: "fs \<Rightarrow> Monitor \<Rightarrow> float64 \<times> uint64 \<times> uint64 \<times> error option" where
  "readMemory files m =
     (case readFile files (cgroupPath m @ ''/memory.max'') of
        Inl err \<Rightarrow> (f64_zero, 0, 0, Some err)
      | Inr memMax \<Rightarrow>
         if memMax = unlimitedValue then (f64_zero, 0, 0, None)
         else
          (case parseUint64 memMax of
             Inl _ \<Rightarrow> (f64_zero, 0, 0, None)
           | Inr memLimit \<Rightarrow>
              (case readFile files (cgroupPath m @ ''/memory.current'') of
                 Inl err \<Rightarrow> (f64_zero, 0, memLimit, Some err)
               | Inr memCurrent \<Rightarrow>
                  (case parseUint64 memCurrent of
                     Inl _ \<Rightarrow> (f64_zero, 0, memLimit, None)
                   | Inr memBytes \<Rightarrow>
                      (let memPercent =
                             f64_mul (f64_div (f64_of_uint64 memBytes) (f64_of_uint64 memLimit))
                               f64_hundred
                       in (memPercent, memBytes, memLimit, None))))))"

text \<open>
  The exported operations. \<open>Stats\<close> and \<open>CPUPercent\<close> hold the lock for the whole call, so a
  call is one step on the monitor; the errors of the readers are dropped.
\<close>

record Stats =
  CPUPercent :: float64
  MemoryPercent :: float64
  MemoryBytes :: uint64
  MemoryLimitBytes :: uint64
  CPULimitCores :: float64

definition Monitor_Stats :: "fs \<Rightarrow> Time \<Rightarrow> Monitor \<Rightarrow> Stats \<times> Monitor" where
  "Monitor_Stats files now m =
     (case readCPU files now m of
        ((cpuPercent, cpuLimit, _), m') \<Rightarrow>
          (case readMemory files m' of
             (memPercent, memBytes, memLimit, _) \<Rightarrow>
               (\<lparr>CPUPercent = cpuPercent, MemoryPercent = memPercent, MemoryBytes = memBytes,
                 MemoryLimitBytes = memLimit, CPULimitCores = cpuLimit\<rparr>, m')))"

definition Monitor_CPUPercent :: "fs \<Rightarrow> Time \<Rightarrow> Monitor \<Rightarrow> float64 \<times> Monitor" where
  "Monitor_CPUPercent files now m =
     (case readCPU files now m of ((pct, _, _), m') \<Rightarrow> (pct, m'))"

definition Monitor_MemoryPercent :: "fs \<Rightarrow> Monitor \<Rightarrow> float64" where
  "Monitor_MemoryPercent files m = (case readMemory files m of (pct, _, _, _) \<Rightarrow> pct)"

text \<open>
  The life of a monitor: a sequence of calls of the exported operations, each with the file
  system and the clock as they are at the call.
\<close>

datatype call = CallStats | CallCPUPercent | CallMemoryPercent

fun step :: "call \<times> fs \<times> Time \<Rightarrow> Monitor \<Rightarrow> Monitor" where
  "step (CallStats, files, now) m = snd (Monitor_Stats files now m)"
| "step (CallCPUPercent, files, now) m = snd (Monitor_CPUPercent files now m)"
| "step (CallMemoryPercent, files, now) m = m"

fun run :: "(call \<times> fs \<times> Time) list \<Rightarrow> Monitor \<Rightarrow> Monitor" where
  "run [] m = m"
| "run (c # cs) m = run cs (step c m)"

section \<open>The fixture of the tests\<close>

text \<open>
  \<open>setupTestCgroup\<close> of the test file: a directory with \<open>cgroup.controllers\<close> and one file for
  each field that is not empty; every other path cannot be read.
\<close>

record testCgroupFiles =
  cpuMax :: string
  cpuStat :: string
  memoryMax :: string
  memoryCur :: string

definition setupTestCgroup :: "string \<Rightarrow> testCgroupFiles \<Rightarrow> fs" where
  "setupTestCgroup dir files path =
     (if path = dir @ ''/cgroup.controllers'' then Inr ''cpu memory''
      else if path = dir @ ''/cpu.max'' \<and> cpuMax files \<noteq> [] then Inr (cpuMax files)
      else if path = dir @ ''/cpu.stat'' \<and> cpuStat files \<noteq> [] then Inr (cpuStat files)
      else if path = dir @ ''/memory.max'' \<and> memoryMax files \<noteq> [] then Inr (memoryMax files)
      else if path = dir @ ''/memory.current'' \<and> memoryCur files \<noteq> [] then Inr (memoryCur files)
      else Inl (PathError path))"

section \<open>Notions the properties are stated with\<close>

text \<open>
  \<open>validLimit payload quota period\<close>: the text of \<open>cpu.max\<close> passes every check of \<open>readCPU\<close>
  on the limit, two fields, a quota that is not \<open>max\<close> and parses to a positive \<open>int64\<close>, a
  period that parses to an \<open>int64\<close> other than 0, and \<open>quota\<close> and \<open>period\<close> are the parsed
  values.
\<close>

definition validLimit :: "string \<Rightarrow> int64 \<Rightarrow> int64 \<Rightarrow> bool" where
  "validLimit payload quota period =
     (case Fields payload of
        [q, p] \<Rightarrow> q \<noteq> unlimitedValue \<and> parseInt64 q = Inr quota \<and> 0 < sint quota
                  \<and> parseInt64 p = Inr period \<and> period \<noteq> 0
      | _ \<Rightarrow> False)"





lemmas str_eval = Fields_def TrimSpace_def HasPrefix_def Split_def flush_def digitVal_def
  parseUint64_def parseInt64_def unlimitedValue_def readFile_def parseCPUStatUsage_def
  setupTestCgroup_def validLimit_def
lemma floor_numeral_div: "\<lfloor>numeral a / numeral b :: rat\<rfloor> = numeral a div numeral b"
  using floor_divide_of_int_eq [of "numeral a" "numeral b", where ?'a = rat] by simp

lemma ceiling_numeral_div: "\<lceil>numeral a / numeral b :: rat\<rceil> = - (- numeral a div numeral b)"
  using floor_divide_of_int_eq [of "- numeral a" "numeral b", where ?'a = rat]
  by (simp add: ceiling_def)

lemmas f64_eval = f64_round_def ilog2_def rne_def f64_of_int_def f64_div_def f64_mul_def
  f64_zero_def f64_hundred_def f64_of_int64_def f64_of_uint64_def bitlen_def compute_floorlog
  floor_numeral_div ceiling_numeral_div Let_def
lemmas monitor_eval = NewMonitor_def WithCgroupPath_def defaultCgroupPath_def zeroTime_def

section \<open>Evaluation rules and the paths of \<open>readCPU\<close>\<close>

lemma validLimitE:
  assumes "validLimit maxPayload quota period"
  obtains q p where "Fields maxPayload = [q, p]" "q \<noteq> unlimitedValue" "parseInt64 q = Inr quota"
    "0 < sint quota" "parseInt64 p = Inr period" "period \<noteq> 0"
  using assms unfolding validLimit_def
  by (auto split: list.splits)

lemma readCPU_sample:
  assumes "readFile files (cgroupPath m @ ''/cpu.max'') = Inr maxPayload"
    and "validLimit maxPayload quota period"
    and "readFile files (cgroupPath m @ ''/cpu.stat'') = Inr statPayload"
  shows "readCPU files now m =
     (let cpuLimitCores = f64_div (f64_of_int64 quota) (f64_of_int64 period);
          usageUsec = parseCPUStatUsage statPayload in
      if \<not> hasBaseline m then
        ((f64_zero, cpuLimitCores, None),
         m\<lparr>lastCPUUsageUsec := usageUsec, lastCPUSampleTime := now, hasBaseline := True\<rparr>)
      else if usageUsec < lastCPUUsageUsec m then
        ((f64_zero, cpuLimitCores, None),
         m\<lparr>lastCPUUsageUsec := usageUsec, lastCPUSampleTime := now\<rparr>)
      else if Sub now (lastCPUSampleTime m) = 0 then ((f64_zero, cpuLimitCores, None), m)
      else
        ((f64_mul
            (f64_div
               (f64_div (f64_of_uint64 (usageUsec - lastCPUUsageUsec m))
                  (f64_of_int64 (Microseconds (Sub now (lastCPUSampleTime m)))))
               cpuLimitCores)
            f64_hundred,
          cpuLimitCores, None),
         m\<lparr>lastCPUUsageUsec := usageUsec, lastCPUSampleTime := now\<rparr>))"
proof -
  from assms(2) obtain q p where f: "Fields maxPayload = [q, p]" "q \<noteq> unlimitedValue"
    "parseInt64 q = Inr quota" "0 < sint quota" "parseInt64 p = Inr period" "period \<noteq> 0"
    by (rule validLimitE)
  show ?thesis
    using assms(1,3) f by (simp add: readCPU_def Let_def)
qed

lemma readCPU_stat_error:
  assumes "readFile files (cgroupPath m @ ''/cpu.max'') = Inr maxPayload"
    and "validLimit maxPayload quota period"
    and "readFile files (cgroupPath m @ ''/cpu.stat'') = Inl err"
  shows "readCPU files now m =
     ((f64_zero, f64_div (f64_of_int64 quota) (f64_of_int64 period), Some err), m)"
proof -
  from assms(2) obtain q p where f: "Fields maxPayload = [q, p]" "q \<noteq> unlimitedValue"
    "parseInt64 q = Inr quota" "0 < sint quota" "parseInt64 p = Inr period" "period \<noteq> 0"
    by (rule validLimitE)
  show ?thesis
    using assms(1,3) f by (simp add: readCPU_def Let_def)
qed

lemma readCPU_invalid_limit:
  assumes rd: "readFile files (cgroupPath m @ ''/cpu.max'') = Inr maxPayload"
    and inv: "\<And>quota period. \<not> validLimit maxPayload quota period"
  shows "readCPU files now m = ((f64_zero, f64_zero, None), m)"
proof (cases "length (Fields maxPayload) = 2")
  case False
  then show ?thesis using rd by (simp add: readCPU_def Let_def)
next
  case True
  then obtain q p where f: "Fields maxPayload = [q, p]"
    by (auto simp: length_Suc_conv numeral_2_eq_2)
  have n: "\<not> (q \<noteq> unlimitedValue \<and> parseInt64 q = Inr quota \<and> 0 < sint quota
              \<and> parseInt64 p = Inr period \<and> period \<noteq> 0)" for quota period
    using inv [of quota period] f by (simp add: validLimit_def)
  show ?thesis
  proof (cases "q = unlimitedValue")
    case True
    then show ?thesis using rd f by (simp add: readCPU_def Let_def)
  next
    case nq: False
    show ?thesis
    proof (cases "parseInt64 q")
      case (Inl e)
      then show ?thesis using rd f nq by (simp add: readCPU_def Let_def)
    next
      case (Inr quota)
      show ?thesis
      proof (cases "sint quota \<le> 0")
        case True
        then show ?thesis using rd f nq Inr by (simp add: readCPU_def Let_def)
      next
        case pos: False
        show ?thesis
        proof (cases "parseInt64 p")
          case (Inl e)
          then show ?thesis using rd f nq Inr pos by (simp add: readCPU_def Let_def)
        next
          case pr: (Inr period)
          with n [of quota period] nq Inr pos have "period = 0" by simp
          then show ?thesis using rd f nq Inr pos pr by (simp add: readCPU_def Let_def)
        qed
      qed
    qed
  qed
qed

lemma readCPU_max_error:
  assumes "readFile files (cgroupPath m @ ''/cpu.max'') = Inl err"
  shows "readCPU files now m = ((f64_zero, f64_zero, Some err), m)"
  using assms by (simp add: readCPU_def)


lemma hasBaseline_update_True: "hasBaseline m \<Longrightarrow> m\<lparr>hasBaseline := True\<rparr> = m"
  by (cases m) simp

section \<open>Baseline and counter reset\<close>

text \<open>
  Claim C1. With a valid CPU limit and a readable \<open>cpu.stat\<close>, a call of \<open>readCPU\<close> on a
  monitor without baseline, or with a usage counter below the stored one, stores the new
  sample (usage, now) with \<open>hasBaseline\<close> set and returns percent 0 with the limit in cores,
  quota / period, and no error.
\<close>

theorem readCPU_baseline:
  assumes "readFile files (cgroupPath m @ ''/cpu.max'') = Inr maxPayload"
    and "validLimit maxPayload quota period"
    and "readFile files (cgroupPath m @ ''/cpu.stat'') = Inr statPayload"
    and "\<not> hasBaseline m \<or> parseCPUStatUsage statPayload < lastCPUUsageUsec m"
  shows "readCPU files now m =
     ((f64_zero, f64_div (f64_of_int64 quota) (f64_of_int64 period), None),
      m\<lparr>lastCPUUsageUsec := parseCPUStatUsage statPayload, lastCPUSampleTime := now,
        hasBaseline := True\<rparr>)"
proof (cases "hasBaseline m")
  case False
  then show ?thesis
    by (simp add: readCPU_sample [OF assms(1-3)] Let_def)
next
  case True
  with assms(4) have lt: "parseCPUStatUsage statPayload < lastCPUUsageUsec m" by simp
  have "m\<lparr>lastCPUUsageUsec := u, lastCPUSampleTime := now, hasBaseline := True\<rparr>
      = m\<lparr>lastCPUUsageUsec := u, lastCPUSampleTime := now\<rparr>" for u
    using True by (cases m) simp
  with True lt show ?thesis
    by (simp add: readCPU_sample [OF assms(1-3)] Let_def)
qed

lemma fixture_cpu_max:
  "cpuMax fx \<noteq> [] \<Longrightarrow> cgroupPath m = dir
   \<Longrightarrow> readFile (setupTestCgroup dir fx) (cgroupPath m @ ''/cpu.max'') = Inr (TrimSpace (cpuMax fx))"
  by (simp add: readFile_def setupTestCgroup_def)

lemma fixture_cpu_stat:
  "cpuStat fx \<noteq> [] \<Longrightarrow> cgroupPath m = dir
   \<Longrightarrow> readFile (setupTestCgroup dir fx) (cgroupPath m @ ''/cpu.stat'') = Inr (TrimSpace (cpuStat fx))"
  by (simp add: readFile_def setupTestCgroup_def)

lemma fixture_memory_max:
  "memoryMax fx \<noteq> [] \<Longrightarrow> cgroupPath m = dir
   \<Longrightarrow> readFile (setupTestCgroup dir fx) (cgroupPath m @ ''/memory.max'')
       = Inr (TrimSpace (memoryMax fx))"
  by (simp add: readFile_def setupTestCgroup_def)

lemma fixture_memory_current:
  "memoryCur fx \<noteq> [] \<Longrightarrow> cgroupPath m = dir
   \<Longrightarrow> readFile (setupTestCgroup dir fx) (cgroupPath m @ ''/memory.current'')
       = Inr (TrimSpace (memoryCur fx))"
  by (simp add: readFile_def setupTestCgroup_def)

lemma one_core_valid: "validLimit ''100000 100000'' 100000 100000"
  by (simp add: str_eval)

lemma one_core_limit: "f64_div (f64_of_int64 100000) (f64_of_int64 100000) = Finite False 1"
  by (simp add: f64_eval)

lemma trim_one_core: "TrimSpace ''100000 100000'' = ''100000 100000''"
  by (simp add: str_eval)

lemma usage_zero: "parseCPUStatUsage (TrimSpace ''usage_usec 0'') = 0"
  by (simp add: str_eval)

lemma usage_500: "parseCPUStatUsage (TrimSpace ''usage_usec 500'') = 500"
  by (simp add: str_eval)

theorem readCPU_baseline_witness:
  "readCPU
     (setupTestCgroup ''/tmp/cg''
        \<lparr>cpuMax = ''100000 100000'', cpuStat = ''usage_usec 0'', memoryMax = [], memoryCur = []\<rparr>)
     \<lparr>hasMonotonic = True, mono = 7000, wall = 7000\<rparr>
     (NewMonitor [WithCgroupPath ''/tmp/cg''])
   = ((Finite False 0, Finite False 1, None),
      \<lparr>cgroupPath = ''/tmp/cg'', lastCPUUsageUsec = 0,
       lastCPUSampleTime = \<lparr>hasMonotonic = True, mono = 7000, wall = 7000\<rparr>,
       hasBaseline = True\<rparr>)
   \<and> readCPU
     (setupTestCgroup ''/tmp/cg''
        \<lparr>cpuMax = ''100000 100000'', cpuStat = ''usage_usec 500'', memoryMax = [], memoryCur = []\<rparr>)
     \<lparr>hasMonotonic = True, mono = 7000, wall = 7000\<rparr>
     \<lparr>cgroupPath = ''/tmp/cg'', lastCPUUsageUsec = 1000000,
       lastCPUSampleTime = \<lparr>hasMonotonic = True, mono = 0, wall = 0\<rparr>, hasBaseline = True\<rparr>
   = ((Finite False 0, Finite False 1, None),
      \<lparr>cgroupPath = ''/tmp/cg'', lastCPUUsageUsec = 500,
       lastCPUSampleTime = \<lparr>hasMonotonic = True, mono = 7000, wall = 7000\<rparr>,
       hasBaseline = True\<rparr>)"
proof -
  let ?fx0 = "\<lparr>cpuMax = ''100000 100000'', cpuStat = ''usage_usec 0'', memoryMax = [], memoryCur = []\<rparr>"
  let ?fx1 = "\<lparr>cpuMax = ''100000 100000'', cpuStat = ''usage_usec 500'', memoryMax = [], memoryCur = []\<rparr>"
  let ?m0 = "NewMonitor [WithCgroupPath ''/tmp/cg'']"
  let ?m1 = "\<lparr>cgroupPath = ''/tmp/cg'', lastCPUUsageUsec = 1000000,
       lastCPUSampleTime = \<lparr>hasMonotonic = True, mono = 0, wall = 0\<rparr>, hasBaseline = True\<rparr>"
  have p0: "cgroupPath ?m0 = ''/tmp/cg''" by (simp add: monitor_eval)
  have a0: "readFile (setupTestCgroup ''/tmp/cg'' ?fx0) (cgroupPath ?m0 @ ''/cpu.max'') = Inr ''100000 100000''"
    using fixture_cpu_max [of ?fx0 ?m0 "''/tmp/cg''"] p0 by (simp add: trim_one_core)
  have b0: "readFile (setupTestCgroup ''/tmp/cg'' ?fx0) (cgroupPath ?m0 @ ''/cpu.stat'') = Inr (TrimSpace ''usage_usec 0'')"
    using fixture_cpu_stat [of ?fx0 ?m0 "''/tmp/cg''"] p0 by simp
  have c0: "\<not> hasBaseline ?m0 \<or> parseCPUStatUsage (TrimSpace ''usage_usec 0'') < lastCPUUsageUsec ?m0"
    by (simp add: monitor_eval)
  have a1: "readFile (setupTestCgroup ''/tmp/cg'' ?fx1) (cgroupPath ?m1 @ ''/cpu.max'') = Inr ''100000 100000''"
    using fixture_cpu_max [of ?fx1 ?m1 "''/tmp/cg''"] by (simp add: trim_one_core)
  have b1: "readFile (setupTestCgroup ''/tmp/cg'' ?fx1) (cgroupPath ?m1 @ ''/cpu.stat'') = Inr (TrimSpace ''usage_usec 500'')"
    using fixture_cpu_stat [of ?fx1 ?m1 "''/tmp/cg''"] by simp
  have c1: "\<not> hasBaseline ?m1 \<or> parseCPUStatUsage (TrimSpace ''usage_usec 500'') < lastCPUUsageUsec ?m1"
    by (simp add: usage_500)
  show ?thesis
    using readCPU_baseline [OF a0 one_core_valid b0 c0] readCPU_baseline [OF a1 one_core_valid b1 c1]
    by (simp add: one_core_limit usage_zero usage_500 f64_zero_def monitor_eval)
qed

section \<open>No limit\<close>

text \<open>
  Claim C5. When \<open>cpu.max\<close> can be read and its first field (the quota) is \<open>max\<close>, or parses
  to a value that is not positive, or its second field (the period) parses to 0, \<open>readCPU\<close>
  returns percent 0 and limit 0 with no error, and leaves the monitor as it is.
\<close>

theorem readCPU_no_limit:
  assumes rd: "readFile files (cgroupPath m @ ''/cpu.max'') = Inr maxPayload"
    and f: "Fields maxPayload = q # rest"
    and c: "q = unlimitedValue
            \<or> (\<exists>quota. parseInt64 q = Inr quota \<and> sint quota \<le> 0)
            \<or> (\<exists>p rest'. rest = p # rest' \<and> parseInt64 p = Inr 0)"
  shows "readCPU files now m = ((f64_zero, f64_zero, None), m)"
proof (rule readCPU_invalid_limit [OF rd])
  fix quota period
  show "\<not> validLimit maxPayload quota period"
  proof
    assume "validLimit maxPayload quota period"
    then obtain q' p' where v: "Fields maxPayload = [q', p']" "q' \<noteq> unlimitedValue"
      "parseInt64 q' = Inr quota" "0 < sint quota" "parseInt64 p' = Inr period" "period \<noteq> 0"
      by (rule validLimitE)
    from v(1) f have "q' = q" "rest = [p']" by simp_all
    with c v show False by auto
  qed
qed

lemma trim_max: "TrimSpace ''max 100000'' = ''max 100000''"
  by (simp add: str_eval)

lemma fields_max: "Fields ''max 100000'' = ''max'' # [''100000'']"
  by (simp add: str_eval)

lemma trim_negative: "TrimSpace ''-100000 100000'' = ''-100000 100000''"
  by (simp add: str_eval)

lemma fields_negative: "Fields ''-100000 100000'' = ''-100000'' # [''100000'']"
  by (simp add: str_eval)

lemma parse_negative: "parseInt64 ''-100000'' = Inr (- 100000) \<and> sint (- 100000 :: int64) \<le> 0"
  by (simp add: str_eval)

lemma trim_zero_period: "TrimSpace ''100000 0'' = ''100000 0''"
  by (simp add: str_eval)

lemma fields_zero_period: "Fields ''100000 0'' = ''100000'' # [''0'']"
  by (simp add: str_eval)

lemma parse_zero: "parseInt64 ''0'' = Inr 0"
  by (simp add: str_eval)

theorem readCPU_no_limit_witness:
  "readCPU
     (setupTestCgroup ''/tmp/cg''
        \<lparr>cpuMax = ''max 100000'', cpuStat = ''usage_usec 1000000'', memoryMax = [], memoryCur = []\<rparr>)
     \<lparr>hasMonotonic = True, mono = 7000, wall = 7000\<rparr>
     (NewMonitor [WithCgroupPath ''/tmp/cg''])
   = ((Finite False 0, Finite False 0, None), NewMonitor [WithCgroupPath ''/tmp/cg''])
   \<and> readCPU
     (setupTestCgroup ''/tmp/cg''
        \<lparr>cpuMax = ''-100000 100000'', cpuStat = ''usage_usec 1000000'', memoryMax = [], memoryCur = []\<rparr>)
     \<lparr>hasMonotonic = True, mono = 7000, wall = 7000\<rparr>
     (NewMonitor [WithCgroupPath ''/tmp/cg''])
   = ((Finite False 0, Finite False 0, None), NewMonitor [WithCgroupPath ''/tmp/cg''])
   \<and> readCPU
     (setupTestCgroup ''/tmp/cg''
        \<lparr>cpuMax = ''100000 0'', cpuStat = ''usage_usec 1000000'', memoryMax = [], memoryCur = []\<rparr>)
     \<lparr>hasMonotonic = True, mono = 7000, wall = 7000\<rparr>
     (NewMonitor [WithCgroupPath ''/tmp/cg''])
   = ((Finite False 0, Finite False 0, None), NewMonitor [WithCgroupPath ''/tmp/cg''])"
proof -
  let ?m = "NewMonitor [WithCgroupPath ''/tmp/cg'']"
  let ?fa = "\<lparr>cpuMax = ''max 100000'', cpuStat = ''usage_usec 1000000'', memoryMax = [], memoryCur = []\<rparr>"
  let ?fb = "\<lparr>cpuMax = ''-100000 100000'', cpuStat = ''usage_usec 1000000'', memoryMax = [], memoryCur = []\<rparr>"
  let ?fc = "\<lparr>cpuMax = ''100000 0'', cpuStat = ''usage_usec 1000000'', memoryMax = [], memoryCur = []\<rparr>"
  have p: "cgroupPath ?m = ''/tmp/cg''" by (simp add: monitor_eval)
  have a: "readFile (setupTestCgroup ''/tmp/cg'' ?fa) (cgroupPath ?m @ ''/cpu.max'') = Inr ''max 100000''"
    using fixture_cpu_max [of ?fa ?m "''/tmp/cg''"] p by (simp add: trim_max)
  have b: "readFile (setupTestCgroup ''/tmp/cg'' ?fb) (cgroupPath ?m @ ''/cpu.max'') = Inr ''-100000 100000''"
    using fixture_cpu_max [of ?fb ?m "''/tmp/cg''"] p by (simp add: trim_negative)
  have c: "readFile (setupTestCgroup ''/tmp/cg'' ?fc) (cgroupPath ?m @ ''/cpu.max'') = Inr ''100000 0''"
    using fixture_cpu_max [of ?fc ?m "''/tmp/cg''"] p by (simp add: trim_zero_period)
  have ca: "''max'' = unlimitedValue
            \<or> (\<exists>quota. parseInt64 ''max'' = Inr quota \<and> sint quota \<le> 0)
            \<or> (\<exists>p rest'. [''100000''] = p # rest' \<and> parseInt64 p = Inr 0)"
    by (simp add: unlimitedValue_def)
  have cb: "''-100000'' = unlimitedValue
            \<or> (\<exists>quota. parseInt64 ''-100000'' = Inr quota \<and> sint quota \<le> 0)
            \<or> (\<exists>p rest'. [''100000''] = p # rest' \<and> parseInt64 p = Inr 0)"
    using parse_negative by blast
  have cc: "''100000'' = unlimitedValue
            \<or> (\<exists>quota. parseInt64 ''100000'' = Inr quota \<and> sint quota \<le> 0)
            \<or> (\<exists>p rest'. [''0''] = p # rest' \<and> parseInt64 p = Inr 0)"
    using parse_zero by blast
  show ?thesis
    using readCPU_no_limit [OF a fields_max ca] readCPU_no_limit [OF b fields_negative cb]
      readCPU_no_limit [OF c fields_zero_period cc]
    by (simp add: f64_zero_def)
qed

text \<open>
  Claim C6. When \<open>memory.max\<close> is \<open>max\<close> or does not parse as a \<open>uint64\<close>, \<open>readMemory\<close>
  returns percent 0, bytes 0 and limit 0 with no error; when the limit parses and the text of
  \<open>memory.current\<close> does not, it returns percent 0 and bytes 0 with the parsed limit and no
  error.
\<close>

theorem readMemory_no_limit:
  "(readFile files (cgroupPath m @ ''/memory.max'') = Inr maxPayload
      \<and> (maxPayload = unlimitedValue \<or> (\<exists>e. parseUint64 maxPayload = Inl e))
     \<longrightarrow> readMemory files m = (f64_zero, 0, 0, None))
   \<and> (readFile files (cgroupPath m @ ''/memory.max'') = Inr maxPayload
      \<and> maxPayload \<noteq> unlimitedValue \<and> parseUint64 maxPayload = Inr memLimit
      \<and> readFile files (cgroupPath m @ ''/memory.current'') = Inr curPayload
      \<and> (\<exists>e. parseUint64 curPayload = Inl e)
     \<longrightarrow> readMemory files m = (f64_zero, 0, memLimit, None))"
  by (auto simp add: readMemory_def)

lemma trim_max_only: "TrimSpace ''max'' = ''max''"
  by (simp add: str_eval)

lemma trim_unlimited_word: "TrimSpace ''unlimited'' = ''unlimited''"
  by (simp add: str_eval)

lemma parse_unlimited_word: "parseUint64 ''unlimited'' = Inl ErrSyntax"
  by (simp add: str_eval)

lemma trim_1g: "TrimSpace ''1073741824'' = ''1073741824''"
  by (simp add: str_eval)

lemma parse_1g: "parseUint64 ''1073741824'' = Inr 1073741824"
  by (simp add: str_eval)

lemma trim_lots: "TrimSpace ''lots'' = ''lots''"
  by (simp add: str_eval)

lemma parse_lots: "parseUint64 ''lots'' = Inl ErrSyntax"
  by (simp add: str_eval)

theorem readMemory_no_limit_witness:
  "readMemory
     (setupTestCgroup ''/tmp/cg''
        \<lparr>cpuMax = [], cpuStat = [], memoryMax = ''max'', memoryCur = ''1000000''\<rparr>)
     (NewMonitor [WithCgroupPath ''/tmp/cg''])
   = (Finite False 0, 0, 0, None)
   \<and> readMemory
     (setupTestCgroup ''/tmp/cg''
        \<lparr>cpuMax = [], cpuStat = [], memoryMax = ''unlimited'', memoryCur = ''1000000''\<rparr>)
     (NewMonitor [WithCgroupPath ''/tmp/cg''])
   = (Finite False 0, 0, 0, None)
   \<and> readMemory
     (setupTestCgroup ''/tmp/cg''
        \<lparr>cpuMax = [], cpuStat = [], memoryMax = ''1073741824'', memoryCur = ''lots''\<rparr>)
     (NewMonitor [WithCgroupPath ''/tmp/cg''])
   = (Finite False 0, 0, 1073741824, None)"
proof -
  let ?m = "NewMonitor [WithCgroupPath ''/tmp/cg'']"
  let ?fa = "\<lparr>cpuMax = [], cpuStat = [], memoryMax = ''max'', memoryCur = ''1000000''\<rparr>"
  let ?fb = "\<lparr>cpuMax = [], cpuStat = [], memoryMax = ''unlimited'', memoryCur = ''1000000''\<rparr>"
  let ?fc = "\<lparr>cpuMax = [], cpuStat = [], memoryMax = ''1073741824'', memoryCur = ''lots''\<rparr>"
  have p: "cgroupPath ?m = ''/tmp/cg''" by (simp add: monitor_eval)
  have a: "readFile (setupTestCgroup ''/tmp/cg'' ?fa) (cgroupPath ?m @ ''/memory.max'') = Inr ''max''"
    using fixture_memory_max [of ?fa ?m "''/tmp/cg''"] p by (simp add: trim_max_only)
  have b: "readFile (setupTestCgroup ''/tmp/cg'' ?fb) (cgroupPath ?m @ ''/memory.max'') = Inr ''unlimited''"
    using fixture_memory_max [of ?fb ?m "''/tmp/cg''"] p by (simp add: trim_unlimited_word)
  have c: "readFile (setupTestCgroup ''/tmp/cg'' ?fc) (cgroupPath ?m @ ''/memory.max'') = Inr ''1073741824''"
    using fixture_memory_max [of ?fc ?m "''/tmp/cg''"] p by (simp add: trim_1g)
  have d: "readFile (setupTestCgroup ''/tmp/cg'' ?fc) (cgroupPath ?m @ ''/memory.current'') = Inr ''lots''"
    using fixture_memory_current [of ?fc ?m "''/tmp/cg''"] p by (simp add: trim_lots)
  show ?thesis
    using readMemory_no_limit [of "setupTestCgroup ''/tmp/cg'' ?fa" ?m "''max''"]
      readMemory_no_limit [of "setupTestCgroup ''/tmp/cg'' ?fb" ?m "''unlimited''"]
      readMemory_no_limit [of "setupTestCgroup ''/tmp/cg'' ?fc" ?m "''1073741824''" 1073741824 "''lots''"]
      a b c d parse_unlimited_word parse_1g parse_lots
    by (simp add: f64_zero_def unlimitedValue_def)
qed

section \<open>Read failures\<close>

text \<open>
  Claim C8. When the usage file cannot be read after the limit has been computed, the error of
  the read is returned with the limit: \<open>readCPU\<close> returns (0, limitCores, error) when
  \<open>cpu.stat\<close> cannot be read, and \<open>readMemory\<close> returns (0, 0, limit, error) when
  \<open>memory.current\<close> cannot be read.
\<close>

theorem read_failure_keeps_limit:
  "(readFile files (cgroupPath m @ ''/cpu.max'') = Inr maxPayload
      \<and> validLimit maxPayload quota period
      \<and> readFile files (cgroupPath m @ ''/cpu.stat'') = Inl err
     \<longrightarrow> readCPU files now m
         = ((f64_zero, f64_div (f64_of_int64 quota) (f64_of_int64 period), Some err), m))
   \<and> (readFile files (cgroupPath m @ ''/memory.max'') = Inr memPayload
      \<and> memPayload \<noteq> unlimitedValue \<and> parseUint64 memPayload = Inr memLimit
      \<and> readFile files (cgroupPath m @ ''/memory.current'') = Inl err
     \<longrightarrow> readMemory files m = (f64_zero, 0, memLimit, Some err))"
proof (intro conjI impI)
  assume "readFile files (cgroupPath m @ ''/cpu.max'') = Inr maxPayload
      \<and> validLimit maxPayload quota period
      \<and> readFile files (cgroupPath m @ ''/cpu.stat'') = Inl err"
  then show "readCPU files now m
         = ((f64_zero, f64_div (f64_of_int64 quota) (f64_of_int64 period), Some err), m)"
    by (simp add: readCPU_stat_error)
next
  assume "readFile files (cgroupPath m @ ''/memory.max'') = Inr memPayload
      \<and> memPayload \<noteq> unlimitedValue \<and> parseUint64 memPayload = Inr memLimit
      \<and> readFile files (cgroupPath m @ ''/memory.current'') = Inl err"
  then show "readMemory files m = (f64_zero, 0, memLimit, Some err)"
    by (simp add: readMemory_def)
qed

lemma half_core_valid: "validLimit ''50000 100000'' 50000 100000"
  by (simp add: str_eval)

lemma half_core_limit:
  "f64_div (f64_of_int64 50000) (f64_of_int64 100000) = Finite False (1 / 2)"
  by (simp add: f64_eval)

lemma trim_half_core: "TrimSpace ''50000 100000'' = ''50000 100000''"
  by (simp add: str_eval)

lemma trim_2g: "TrimSpace ''2147483648'' = ''2147483648''"
  by (simp add: str_eval)

lemma parse_2g: "parseUint64 ''2147483648'' = Inr 2147483648"
  by (simp add: str_eval)

lemma fixture_missing:
  "cgroupPath m = dir
   \<Longrightarrow> (cpuStat fx = [] \<longrightarrow> readFile (setupTestCgroup dir fx) (cgroupPath m @ ''/cpu.stat'')
          = Inl (PathError (dir @ ''/cpu.stat'')))
     \<and> (memoryCur fx = [] \<longrightarrow> readFile (setupTestCgroup dir fx) (cgroupPath m @ ''/memory.current'')
          = Inl (PathError (dir @ ''/memory.current'')))
     \<and> (cpuMax fx = [] \<longrightarrow> readFile (setupTestCgroup dir fx) (cgroupPath m @ ''/cpu.max'')
          = Inl (PathError (dir @ ''/cpu.max'')))"
  by (simp add: readFile_def setupTestCgroup_def)

theorem read_failure_keeps_limit_witness:
  "readCPU
     (setupTestCgroup ''/tmp/cg''
        \<lparr>cpuMax = ''50000 100000'', cpuStat = [], memoryMax = ''2147483648'', memoryCur = []\<rparr>)
     \<lparr>hasMonotonic = True, mono = 7000, wall = 7000\<rparr>
     (NewMonitor [WithCgroupPath ''/tmp/cg''])
   = ((Finite False 0, Finite False (1 / 2), Some (PathError ''/tmp/cg/cpu.stat'')),
      NewMonitor [WithCgroupPath ''/tmp/cg''])
   \<and> readMemory
     (setupTestCgroup ''/tmp/cg''
        \<lparr>cpuMax = ''50000 100000'', cpuStat = [], memoryMax = ''2147483648'', memoryCur = []\<rparr>)
     (NewMonitor [WithCgroupPath ''/tmp/cg''])
   = (Finite False 0, 0, 2147483648, Some (PathError ''/tmp/cg/memory.current''))"
proof -
  let ?m = "NewMonitor [WithCgroupPath ''/tmp/cg'']"
  let ?fx = "\<lparr>cpuMax = ''50000 100000'', cpuStat = [], memoryMax = ''2147483648'', memoryCur = []\<rparr>"
  have p: "cgroupPath ?m = ''/tmp/cg''" by (simp add: monitor_eval)
  have a: "readFile (setupTestCgroup ''/tmp/cg'' ?fx) (cgroupPath ?m @ ''/cpu.max'') = Inr ''50000 100000''"
    using fixture_cpu_max [of ?fx ?m "''/tmp/cg''"] p by (simp add: trim_half_core)
  have b: "readFile (setupTestCgroup ''/tmp/cg'' ?fx) (cgroupPath ?m @ ''/cpu.stat'')
      = Inl (PathError ''/tmp/cg/cpu.stat'')"
    using fixture_missing [of ?m "''/tmp/cg''" ?fx] p by simp
  have c: "readFile (setupTestCgroup ''/tmp/cg'' ?fx) (cgroupPath ?m @ ''/memory.max'') = Inr ''2147483648''"
    using fixture_memory_max [of ?fx ?m "''/tmp/cg''"] p by (simp add: trim_2g)
  have d: "readFile (setupTestCgroup ''/tmp/cg'' ?fx) (cgroupPath ?m @ ''/memory.current'')
      = Inl (PathError ''/tmp/cg/memory.current'')"
    using fixture_missing [of ?m "''/tmp/cg''" ?fx] p by simp
  show ?thesis
    using read_failure_keeps_limit [of "setupTestCgroup ''/tmp/cg'' ?fx" ?m "''50000 100000''"
        50000 100000 "PathError ''/tmp/cg/cpu.stat''" "\<lparr>hasMonotonic = True, mono = 7000, wall = 7000\<rparr>"]
      read_failure_keeps_limit [of "setupTestCgroup ''/tmp/cg'' ?fx" ?m _ _ _
        "PathError ''/tmp/cg/memory.current''" _ "''2147483648''" 2147483648]
      a b c d half_core_valid parse_2g
    by (simp add: half_core_limit f64_zero_def unlimitedValue_def)
qed

section \<open>Frame\<close>

text \<open>
  Claim C10. A call of \<open>readCPU\<close> that ends at a read error of either file, at a limit
  descriptor that is not a valid limit, or at the test for an elapsed time of zero, leaves the
  monitor as it is: \<open>lastCPUUsageUsec\<close>, \<open>lastCPUSampleTime\<close> and \<open>hasBaseline\<close> keep their
  values, and the sample at elapsed time zero does not replace the stored sample time.
\<close>

theorem readCPU_frame:
  assumes "(\<exists>err. readFile files (cgroupPath m @ ''/cpu.max'') = Inl err)
        \<or> (\<exists>maxPayload. readFile files (cgroupPath m @ ''/cpu.max'') = Inr maxPayload
             \<and> (\<forall>quota period. \<not> validLimit maxPayload quota period))
        \<or> (\<exists>maxPayload quota period err.
               readFile files (cgroupPath m @ ''/cpu.max'') = Inr maxPayload
             \<and> validLimit maxPayload quota period
             \<and> readFile files (cgroupPath m @ ''/cpu.stat'') = Inl err)
        \<or> (\<exists>maxPayload quota period statPayload.
               readFile files (cgroupPath m @ ''/cpu.max'') = Inr maxPayload
             \<and> validLimit maxPayload quota period
             \<and> readFile files (cgroupPath m @ ''/cpu.stat'') = Inr statPayload
             \<and> hasBaseline m \<and> \<not> parseCPUStatUsage statPayload < lastCPUUsageUsec m
             \<and> Sub now (lastCPUSampleTime m) = 0)"
  shows "snd (readCPU files now m) = m"
  using assms
proof (elim disjE exE conjE)
  fix err
  assume "readFile files (cgroupPath m @ ''/cpu.max'') = Inl err"
  then show ?thesis by (simp add: readCPU_max_error)
next
  fix maxPayload
  assume "readFile files (cgroupPath m @ ''/cpu.max'') = Inr maxPayload"
    and "\<forall>quota period. \<not> validLimit maxPayload quota period"
  then show ?thesis by (simp add: readCPU_invalid_limit)
next
  fix maxPayload quota period err
  assume "readFile files (cgroupPath m @ ''/cpu.max'') = Inr maxPayload"
    and "validLimit maxPayload quota period"
    and "readFile files (cgroupPath m @ ''/cpu.stat'') = Inl err"
  then show ?thesis by (simp add: readCPU_stat_error)
next
  fix maxPayload quota period statPayload
  assume a: "readFile files (cgroupPath m @ ''/cpu.max'') = Inr maxPayload"
    "validLimit maxPayload quota period"
    "readFile files (cgroupPath m @ ''/cpu.stat'') = Inr statPayload"
    and b: "hasBaseline m" "\<not> parseCPUStatUsage statPayload < lastCPUUsageUsec m"
    "Sub now (lastCPUSampleTime m) = 0"
  show ?thesis using b by (simp add: readCPU_sample [OF a] Let_def)
qed

lemma usage_1000000: "parseCPUStatUsage (TrimSpace ''usage_usec 1000000'') = 1000000"
  by (simp add: str_eval)

lemma usage_1100000: "parseCPUStatUsage (TrimSpace ''usage_usec 1100000'') = 1100000"
  by (simp add: str_eval)

lemma sub_same_instant:
  "Sub \<lparr>hasMonotonic = True, mono = 7000, wall = 9000\<rparr>
       \<lparr>hasMonotonic = True, mono = 7000, wall = 8000\<rparr> = 0"
  by (simp add: Sub_def subMono_def)

theorem readCPU_frame_witness:
  "snd (readCPU
     (setupTestCgroup ''/tmp/cg''
        \<lparr>cpuMax = ''100000 100000'', cpuStat = ''usage_usec 1100000'', memoryMax = [], memoryCur = []\<rparr>)
     \<lparr>hasMonotonic = True, mono = 7000, wall = 9000\<rparr>
     \<lparr>cgroupPath = ''/tmp/cg'', lastCPUUsageUsec = 1000000,
       lastCPUSampleTime = \<lparr>hasMonotonic = True, mono = 7000, wall = 8000\<rparr>, hasBaseline = True\<rparr>)
   = \<lparr>cgroupPath = ''/tmp/cg'', lastCPUUsageUsec = 1000000,
       lastCPUSampleTime = \<lparr>hasMonotonic = True, mono = 7000, wall = 8000\<rparr>, hasBaseline = True\<rparr>
   \<and> snd (readCPU
     (setupTestCgroup ''/tmp/cg''
        \<lparr>cpuMax = [], cpuStat = ''usage_usec 1100000'', memoryMax = [], memoryCur = []\<rparr>)
     \<lparr>hasMonotonic = True, mono = 9000, wall = 9000\<rparr>
     \<lparr>cgroupPath = ''/tmp/cg'', lastCPUUsageUsec = 1000000,
       lastCPUSampleTime = \<lparr>hasMonotonic = True, mono = 7000, wall = 8000\<rparr>, hasBaseline = True\<rparr>)
   = \<lparr>cgroupPath = ''/tmp/cg'', lastCPUUsageUsec = 1000000,
       lastCPUSampleTime = \<lparr>hasMonotonic = True, mono = 7000, wall = 8000\<rparr>, hasBaseline = True\<rparr>
   \<and> snd (readCPU
     (setupTestCgroup ''/tmp/cg''
        \<lparr>cpuMax = ''max 100000'', cpuStat = ''usage_usec 1100000'', memoryMax = [], memoryCur = []\<rparr>)
     \<lparr>hasMonotonic = True, mono = 9000, wall = 9000\<rparr>
     \<lparr>cgroupPath = ''/tmp/cg'', lastCPUUsageUsec = 1000000,
       lastCPUSampleTime = \<lparr>hasMonotonic = True, mono = 7000, wall = 8000\<rparr>, hasBaseline = True\<rparr>)
   = \<lparr>cgroupPath = ''/tmp/cg'', lastCPUUsageUsec = 1000000,
       lastCPUSampleTime = \<lparr>hasMonotonic = True, mono = 7000, wall = 8000\<rparr>, hasBaseline = True\<rparr>
   \<and> snd (readCPU
     (setupTestCgroup ''/tmp/cg''
        \<lparr>cpuMax = ''100000 100000'', cpuStat = [], memoryMax = [], memoryCur = []\<rparr>)
     \<lparr>hasMonotonic = True, mono = 9000, wall = 9000\<rparr>
     \<lparr>cgroupPath = ''/tmp/cg'', lastCPUUsageUsec = 1000000,
       lastCPUSampleTime = \<lparr>hasMonotonic = True, mono = 7000, wall = 8000\<rparr>, hasBaseline = True\<rparr>)
   = \<lparr>cgroupPath = ''/tmp/cg'', lastCPUUsageUsec = 1000000,
       lastCPUSampleTime = \<lparr>hasMonotonic = True, mono = 7000, wall = 8000\<rparr>, hasBaseline = True\<rparr>"
proof -
  let ?fx = "\<lparr>cpuMax = ''100000 100000'', cpuStat = ''usage_usec 1100000'', memoryMax = [], memoryCur = []\<rparr>"
  let ?f1 = "\<lparr>cpuMax = [], cpuStat = ''usage_usec 1100000'', memoryMax = [], memoryCur = []\<rparr>"
  let ?f2 = "\<lparr>cpuMax = ''max 100000'', cpuStat = ''usage_usec 1100000'', memoryMax = [], memoryCur = []\<rparr>"
  let ?f3 = "\<lparr>cpuMax = ''100000 100000'', cpuStat = [], memoryMax = [], memoryCur = []\<rparr>"
  let ?m = "\<lparr>cgroupPath = ''/tmp/cg'', lastCPUUsageUsec = 1000000,
       lastCPUSampleTime = \<lparr>hasMonotonic = True, mono = 7000, wall = 8000\<rparr>, hasBaseline = True\<rparr>"
  let ?now = "\<lparr>hasMonotonic = True, mono = 7000, wall = 9000\<rparr>"
  let ?later = "\<lparr>hasMonotonic = True, mono = 9000, wall = 9000\<rparr>"
  have a: "readFile (setupTestCgroup ''/tmp/cg'' ?fx) (cgroupPath ?m @ ''/cpu.max'') = Inr ''100000 100000''"
    using fixture_cpu_max [of ?fx ?m "''/tmp/cg''"] by (simp add: trim_one_core)
  have b: "readFile (setupTestCgroup ''/tmp/cg'' ?fx) (cgroupPath ?m @ ''/cpu.stat'')
      = Inr (TrimSpace ''usage_usec 1100000'')"
    using fixture_cpu_stat [of ?fx ?m "''/tmp/cg''"] by simp
  have c: "hasBaseline ?m
      \<and> \<not> parseCPUStatUsage (TrimSpace ''usage_usec 1100000'') < lastCPUUsageUsec ?m
      \<and> Sub ?now (lastCPUSampleTime ?m) = 0"
    using sub_same_instant by (simp add: usage_1100000)
  have h0: "(\<exists>err. readFile (setupTestCgroup ''/tmp/cg'' ?fx) (cgroupPath ?m @ ''/cpu.max'') = Inl err)
        \<or> (\<exists>maxPayload. readFile (setupTestCgroup ''/tmp/cg'' ?fx) (cgroupPath ?m @ ''/cpu.max'') = Inr maxPayload
             \<and> (\<forall>quota period. \<not> validLimit maxPayload quota period))
        \<or> (\<exists>maxPayload quota period err.
               readFile (setupTestCgroup ''/tmp/cg'' ?fx) (cgroupPath ?m @ ''/cpu.max'') = Inr maxPayload
             \<and> validLimit maxPayload quota period
             \<and> readFile (setupTestCgroup ''/tmp/cg'' ?fx) (cgroupPath ?m @ ''/cpu.stat'') = Inl err)
        \<or> (\<exists>maxPayload quota period statPayload.
               readFile (setupTestCgroup ''/tmp/cg'' ?fx) (cgroupPath ?m @ ''/cpu.max'') = Inr maxPayload
             \<and> validLimit maxPayload quota period
             \<and> readFile (setupTestCgroup ''/tmp/cg'' ?fx) (cgroupPath ?m @ ''/cpu.stat'') = Inr statPayload
             \<and> hasBaseline ?m \<and> \<not> parseCPUStatUsage statPayload < lastCPUUsageUsec ?m
             \<and> Sub ?now (lastCPUSampleTime ?m) = 0)"
    using a b c one_core_valid by blast
  have a1: "readFile (setupTestCgroup ''/tmp/cg'' ?f1) (cgroupPath ?m @ ''/cpu.max'')
      = Inl (PathError ''/tmp/cg/cpu.max'')"
    using fixture_missing [of ?m "''/tmp/cg''" ?f1] by simp
  have h1: "(\<exists>err. readFile (setupTestCgroup ''/tmp/cg'' ?f1) (cgroupPath ?m @ ''/cpu.max'') = Inl err)
        \<or> (\<exists>maxPayload. readFile (setupTestCgroup ''/tmp/cg'' ?f1) (cgroupPath ?m @ ''/cpu.max'') = Inr maxPayload
             \<and> (\<forall>quota period. \<not> validLimit maxPayload quota period))
        \<or> (\<exists>maxPayload quota period err.
               readFile (setupTestCgroup ''/tmp/cg'' ?f1) (cgroupPath ?m @ ''/cpu.max'') = Inr maxPayload
             \<and> validLimit maxPayload quota period
             \<and> readFile (setupTestCgroup ''/tmp/cg'' ?f1) (cgroupPath ?m @ ''/cpu.stat'') = Inl err)
        \<or> (\<exists>maxPayload quota period statPayload.
               readFile (setupTestCgroup ''/tmp/cg'' ?f1) (cgroupPath ?m @ ''/cpu.max'') = Inr maxPayload
             \<and> validLimit maxPayload quota period
             \<and> readFile (setupTestCgroup ''/tmp/cg'' ?f1) (cgroupPath ?m @ ''/cpu.stat'') = Inr statPayload
             \<and> hasBaseline ?m \<and> \<not> parseCPUStatUsage statPayload < lastCPUUsageUsec ?m
             \<and> Sub ?later (lastCPUSampleTime ?m) = 0)"
    using a1 by blast
  have a2: "readFile (setupTestCgroup ''/tmp/cg'' ?f2) (cgroupPath ?m @ ''/cpu.max'') = Inr ''max 100000''"
    using fixture_cpu_max [of ?f2 ?m "''/tmp/cg''"] by (simp add: trim_max)
  have n2: "\<forall>quota period. \<not> validLimit ''max 100000'' quota period"
    by (simp add: validLimit_def fields_max unlimitedValue_def)
  have h2: "(\<exists>err. readFile (setupTestCgroup ''/tmp/cg'' ?f2) (cgroupPath ?m @ ''/cpu.max'') = Inl err)
        \<or> (\<exists>maxPayload. readFile (setupTestCgroup ''/tmp/cg'' ?f2) (cgroupPath ?m @ ''/cpu.max'') = Inr maxPayload
             \<and> (\<forall>quota period. \<not> validLimit maxPayload quota period))
        \<or> (\<exists>maxPayload quota period err.
               readFile (setupTestCgroup ''/tmp/cg'' ?f2) (cgroupPath ?m @ ''/cpu.max'') = Inr maxPayload
             \<and> validLimit maxPayload quota period
             \<and> readFile (setupTestCgroup ''/tmp/cg'' ?f2) (cgroupPath ?m @ ''/cpu.stat'') = Inl err)
        \<or> (\<exists>maxPayload quota period statPayload.
               readFile (setupTestCgroup ''/tmp/cg'' ?f2) (cgroupPath ?m @ ''/cpu.max'') = Inr maxPayload
             \<and> validLimit maxPayload quota period
             \<and> readFile (setupTestCgroup ''/tmp/cg'' ?f2) (cgroupPath ?m @ ''/cpu.stat'') = Inr statPayload
             \<and> hasBaseline ?m \<and> \<not> parseCPUStatUsage statPayload < lastCPUUsageUsec ?m
             \<and> Sub ?later (lastCPUSampleTime ?m) = 0)"
    using a2 n2 by blast
  have a3: "readFile (setupTestCgroup ''/tmp/cg'' ?f3) (cgroupPath ?m @ ''/cpu.max'') = Inr ''100000 100000''"
    using fixture_cpu_max [of ?f3 ?m "''/tmp/cg''"] by (simp add: trim_one_core)
  have b3: "readFile (setupTestCgroup ''/tmp/cg'' ?f3) (cgroupPath ?m @ ''/cpu.stat'')
      = Inl (PathError ''/tmp/cg/cpu.stat'')"
    using fixture_missing [of ?m "''/tmp/cg''" ?f3] by simp
  have h3: "(\<exists>err. readFile (setupTestCgroup ''/tmp/cg'' ?f3) (cgroupPath ?m @ ''/cpu.max'') = Inl err)
        \<or> (\<exists>maxPayload. readFile (setupTestCgroup ''/tmp/cg'' ?f3) (cgroupPath ?m @ ''/cpu.max'') = Inr maxPayload
             \<and> (\<forall>quota period. \<not> validLimit maxPayload quota period))
        \<or> (\<exists>maxPayload quota period err.
               readFile (setupTestCgroup ''/tmp/cg'' ?f3) (cgroupPath ?m @ ''/cpu.max'') = Inr maxPayload
             \<and> validLimit maxPayload quota period
             \<and> readFile (setupTestCgroup ''/tmp/cg'' ?f3) (cgroupPath ?m @ ''/cpu.stat'') = Inl err)
        \<or> (\<exists>maxPayload quota period statPayload.
               readFile (setupTestCgroup ''/tmp/cg'' ?f3) (cgroupPath ?m @ ''/cpu.max'') = Inr maxPayload
             \<and> validLimit maxPayload quota period
             \<and> readFile (setupTestCgroup ''/tmp/cg'' ?f3) (cgroupPath ?m @ ''/cpu.stat'') = Inr statPayload
             \<and> hasBaseline ?m \<and> \<not> parseCPUStatUsage statPayload < lastCPUUsageUsec ?m
             \<and> Sub ?later (lastCPUSampleTime ?m) = 0)"
    using a3 b3 one_core_valid by blast
  show ?thesis
    using readCPU_frame [OF h0] readCPU_frame [OF h1] readCPU_frame [OF h2] readCPU_frame [OF h3]
    by (intro conjI)
qed

section \<open>Division by an elapsed time or a limit of zero\<close>

text \<open>
  Claim C2, at an input where it fails. The baseline was taken at the monotonic reading 0 with
  a usage of 1000000; the next sample is taken 500 nanoseconds later with a usage of 1100000.
  The elapsed time is not the zero \<open>Duration\<close>, so the test of \<open>readCPU\<close> lets it pass, and it
  is zero microseconds: \<open>readCPU\<close> divides the usage delta by zero and returns the percent
  \<open>+Inf\<close>, not 0.
\<close>

theorem readCPU_sub_microsecond:
  "Microseconds (Sub \<lparr>hasMonotonic = True, mono = 500, wall = 500\<rparr>
                     \<lparr>hasMonotonic = True, mono = 0, wall = 0\<rparr>) = 0
   \<and> fst (readCPU
     (setupTestCgroup ''/tmp/cg''
        \<lparr>cpuMax = ''100000 100000'', cpuStat = ''usage_usec 1100000'', memoryMax = [], memoryCur = []\<rparr>)
     \<lparr>hasMonotonic = True, mono = 500, wall = 500\<rparr>
     \<lparr>cgroupPath = ''/tmp/cg'', lastCPUUsageUsec = 1000000,
       lastCPUSampleTime = \<lparr>hasMonotonic = True, mono = 0, wall = 0\<rparr>, hasBaseline = True\<rparr>)
   = (Infinity False, Finite False 1, None)"
proof -
  let ?fx = "\<lparr>cpuMax = ''100000 100000'', cpuStat = ''usage_usec 1100000'', memoryMax = [], memoryCur = []\<rparr>"
  let ?m = "\<lparr>cgroupPath = ''/tmp/cg'', lastCPUUsageUsec = 1000000,
       lastCPUSampleTime = \<lparr>hasMonotonic = True, mono = 0, wall = 0\<rparr>, hasBaseline = True\<rparr>"
  let ?now = "\<lparr>hasMonotonic = True, mono = 500, wall = 500\<rparr>"
  have a: "readFile (setupTestCgroup ''/tmp/cg'' ?fx) (cgroupPath ?m @ ''/cpu.max'') = Inr ''100000 100000''"
    using fixture_cpu_max [of ?fx ?m "''/tmp/cg''"] by (simp add: trim_one_core)
  have b: "readFile (setupTestCgroup ''/tmp/cg'' ?fx) (cgroupPath ?m @ ''/cpu.stat'')
      = Inr (TrimSpace ''usage_usec 1100000'')"
    using fixture_cpu_stat [of ?fx ?m "''/tmp/cg''"] by simp
  have s: "Sub ?now (lastCPUSampleTime ?m) = 500"
    by (simp add: Sub_def subMono_def)
  have u: "Microseconds 500 = 0"
    by (simp add: Microseconds_def signed_divide_int_def)
  have "fst (readCPU (setupTestCgroup ''/tmp/cg'' ?fx) ?now ?m) = (Infinity False, Finite False 1, None)"
    using s by (simp add: readCPU_sample [OF a one_core_valid b] usage_1100000 u f64_eval)
  moreover have "Microseconds (Sub ?now \<lparr>hasMonotonic = True, mono = 0, wall = 0\<rparr>) = 0"
    using s u by simp
  ultimately show ?thesis by simp
qed

text \<open>
  Claim C4, at an input where it fails. With \<open>memory.max\<close> holding \<open>0\<close>, which parses as the
  \<open>uint64\<close> 0, and \<open>memory.current\<close> holding \<open>1073741824\<close>, \<open>readMemory\<close> divides by the limit 0
  and returns the percent \<open>+Inf\<close>, which is not a finite number.
\<close>

theorem readMemory_zero_limit:
  "readMemory
     (setupTestCgroup ''/tmp/cg''
        \<lparr>cpuMax = [], cpuStat = [], memoryMax = ''0'', memoryCur = ''1073741824''\<rparr>)
     (NewMonitor [WithCgroupPath ''/tmp/cg''])
   = (Infinity False, 1073741824, 0, None)
   \<and> \<not> isFinite (Infinity False)"
proof -
  let ?m = "NewMonitor [WithCgroupPath ''/tmp/cg'']"
  let ?fx = "\<lparr>cpuMax = [], cpuStat = [], memoryMax = ''0'', memoryCur = ''1073741824''\<rparr>"
  have p: "cgroupPath ?m = ''/tmp/cg''" by (simp add: monitor_eval)
  have t0: "TrimSpace ''0'' = ''0''" by (simp add: str_eval)
  have p0: "parseUint64 ''0'' = Inr 0" by (simp add: str_eval)
  have a: "readFile (setupTestCgroup ''/tmp/cg'' ?fx) (cgroupPath ?m @ ''/memory.max'') = Inr ''0''"
    using fixture_memory_max [of ?fx ?m "''/tmp/cg''"] p by (simp add: t0)
  have b: "readFile (setupTestCgroup ''/tmp/cg'' ?fx) (cgroupPath ?m @ ''/memory.current'')
      = Inr ''1073741824''"
    using fixture_memory_current [of ?fx ?m "''/tmp/cg''"] p by (simp add: trim_1g)
  have "readMemory (setupTestCgroup ''/tmp/cg'' ?fx) ?m = (Infinity False, 1073741824, 0, None)"
    by (simp add: readMemory_def a b p0 parse_1g unlimitedValue_def f64_eval)
  then show ?thesis by (simp add: isFinite_def)
qed

section \<open>The baseline flag and the stored sample\<close>

lemma readCPU_cases:
  obtains (max_error) err where "readFile files (cgroupPath m @ ''/cpu.max'') = Inl err"
  | (invalid) maxPayload where "readFile files (cgroupPath m @ ''/cpu.max'') = Inr maxPayload"
      "\<And>quota period. \<not> validLimit maxPayload quota period"
  | (stat_error) maxPayload quota period err where
      "readFile files (cgroupPath m @ ''/cpu.max'') = Inr maxPayload"
      "validLimit maxPayload quota period"
      "readFile files (cgroupPath m @ ''/cpu.stat'') = Inl err"
  | (sample) maxPayload quota period statPayload where
      "readFile files (cgroupPath m @ ''/cpu.max'') = Inr maxPayload"
      "validLimit maxPayload quota period"
      "readFile files (cgroupPath m @ ''/cpu.stat'') = Inr statPayload"
proof (cases "readFile files (cgroupPath m @ ''/cpu.max'')")
  case (Inl err)
  then show ?thesis by (rule max_error)
next
  case (Inr maxPayload)
  show ?thesis
  proof (cases "\<exists>quota period. validLimit maxPayload quota period")
    case False
    then show ?thesis using Inr invalid by blast
  next
    case True
    then obtain quota period where v: "validLimit maxPayload quota period" by blast
    show ?thesis
    proof (cases "readFile files (cgroupPath m @ ''/cpu.stat'')")
      case (Inl err)
      then show ?thesis using Inr v stat_error by blast
    next
      case st: (Inr statPayload)
      then show ?thesis using Inr v sample by blast
    qed
  qed
qed

lemma readCPU_sample_state:
  assumes "readFile files (cgroupPath m @ ''/cpu.max'') = Inr maxPayload"
    and "validLimit maxPayload quota period"
    and "readFile files (cgroupPath m @ ''/cpu.stat'') = Inr statPayload"
  shows "hasBaseline (snd (readCPU files now m))"
    and "snd (readCPU files now m) = m
         \<or> (lastCPUUsageUsec (snd (readCPU files now m)) = parseCPUStatUsage statPayload
            \<and> lastCPUSampleTime (snd (readCPU files now m)) = now)"
    and "cgroupPath (snd (readCPU files now m)) = cgroupPath m"
  by (simp_all add: readCPU_sample [OF assms] Let_def)

lemma readCPU_hasBaseline_iff:
  "hasBaseline (snd (readCPU files now m)) \<longleftrightarrow>
     hasBaseline m
     \<or> (\<exists>maxPayload quota period statPayload.
           readFile files (cgroupPath m @ ''/cpu.max'') = Inr maxPayload
         \<and> validLimit maxPayload quota period
         \<and> readFile files (cgroupPath m @ ''/cpu.stat'') = Inr statPayload)"
proof (cases files m rule: readCPU_cases)
  case (max_error err)
  then show ?thesis by (simp add: readCPU_max_error)
next
  case (invalid maxPayload)
  then show ?thesis by (auto simp add: readCPU_invalid_limit)
next
  case (stat_error maxPayload quota period err)
  then show ?thesis by (simp add: readCPU_stat_error)
next
  case (sample maxPayload quota period statPayload)
  then show ?thesis using readCPU_sample_state(1) [OF sample] by blast
qed

lemma readCPU_pair_update:
  "(lastCPUUsageUsec (snd (readCPU files now m)), lastCPUSampleTime (snd (readCPU files now m)))
     = (lastCPUUsageUsec m, lastCPUSampleTime m)
   \<or> (\<exists>statPayload. readFile files (cgroupPath m @ ''/cpu.stat'') = Inr statPayload
        \<and> lastCPUUsageUsec (snd (readCPU files now m)) = parseCPUStatUsage statPayload
        \<and> lastCPUSampleTime (snd (readCPU files now m)) = now)"
proof (cases files m rule: readCPU_cases)
  case (max_error err)
  then show ?thesis by (simp add: readCPU_max_error)
next
  case (invalid maxPayload)
  then show ?thesis by (simp add: readCPU_invalid_limit)
next
  case (stat_error maxPayload quota period err)
  then show ?thesis by (simp add: readCPU_stat_error)
next
  case (sample maxPayload quota period statPayload)
  from readCPU_sample_state(2) [OF sample, of now] sample(3) show ?thesis by auto
qed

lemma snd_Monitor_Stats: "snd (Monitor_Stats files now m) = snd (readCPU files now m)"
  by (simp add: Monitor_Stats_def split: prod.splits)

lemma snd_Monitor_CPUPercent: "snd (Monitor_CPUPercent files now m) = snd (readCPU files now m)"
  by (simp add: Monitor_CPUPercent_def split: prod.splits)

lemma step_hasBaseline:
  assumes h: "hasBaseline m"
  shows "hasBaseline (step c m)"
proof -
  obtain k files now where c: "c = (k, files, now)" by (cases c) auto
  have r: "hasBaseline (snd (readCPU files now m))"
    using h by (simp add: readCPU_hasBaseline_iff)
  show ?thesis
    using r h by (cases k) (simp_all add: c snd_Monitor_Stats snd_Monitor_CPUPercent)
qed

lemma run_hasBaseline: "hasBaseline m \<Longrightarrow> hasBaseline (run calls m)"
  by (induction calls arbitrary: m) (simp_all add: step_hasBaseline)

text \<open>
  Claim C3 as stated fails: a call of \<open>readCPU\<close> on a new monitor whose \<open>cpu.max\<close> holds
  \<open>max 100000\<close> completes with no error, and \<open>hasBaseline\<close> is still false after it.
\<close>

theorem hasBaseline_after_read_without_limit:
  "snd (snd (fst (readCPU
     (setupTestCgroup ''/tmp/cg''
        \<lparr>cpuMax = ''max 100000'', cpuStat = ''usage_usec 1000000'', memoryMax = [], memoryCur = []\<rparr>)
     \<lparr>hasMonotonic = True, mono = 7000, wall = 7000\<rparr>
     (NewMonitor [WithCgroupPath ''/tmp/cg''])))) = None
   \<and> \<not> hasBaseline (snd (readCPU
     (setupTestCgroup ''/tmp/cg''
        \<lparr>cpuMax = ''max 100000'', cpuStat = ''usage_usec 1000000'', memoryMax = [], memoryCur = []\<rparr>)
     \<lparr>hasMonotonic = True, mono = 7000, wall = 7000\<rparr>
     (NewMonitor [WithCgroupPath ''/tmp/cg''])))"
proof -
  let ?m = "NewMonitor [WithCgroupPath ''/tmp/cg'']"
  let ?fx = "\<lparr>cpuMax = ''max 100000'', cpuStat = ''usage_usec 1000000'', memoryMax = [], memoryCur = []\<rparr>"
  have p: "cgroupPath ?m = ''/tmp/cg''" by (simp add: monitor_eval)
  have a: "readFile (setupTestCgroup ''/tmp/cg'' ?fx) (cgroupPath ?m @ ''/cpu.max'') = Inr ''max 100000''"
    using fixture_cpu_max [of ?fx ?m "''/tmp/cg''"] p by (simp add: trim_max)
  have n: "\<not> validLimit ''max 100000'' quota period" for quota period
    by (simp add: validLimit_def fields_max unlimitedValue_def)
  have "readCPU (setupTestCgroup ''/tmp/cg'' ?fx) \<lparr>hasMonotonic = True, mono = 7000, wall = 7000\<rparr> ?m
      = ((f64_zero, f64_zero, None), ?m)"
    using a n by (rule readCPU_invalid_limit)
  then show ?thesis by (simp add: monitor_eval)
qed

text \<open>
  Claim C3 as amended. \<open>hasBaseline\<close> is false on a new monitor; after a call of \<open>readCPU\<close> it
  is true exactly when it was true before or the call reached the sample, that is, \<open>cpu.max\<close>
  was read and held a valid limit and \<open>cpu.stat\<close> was read; once true it stays true over every
  sequence of calls of the exported operations; and a call of \<open>readCPU\<close> either leaves both
  \<open>lastCPUUsageUsec\<close> and \<open>lastCPUSampleTime\<close> as they were or sets both to the new sample
  (usage, now).
\<close>

theorem hasBaseline_invariant:
  "\<not> hasBaseline (NewMonitor [])
   \<and> \<not> hasBaseline (NewMonitor [WithCgroupPath path])
   \<and> (hasBaseline (snd (readCPU files now m)) \<longleftrightarrow>
        hasBaseline m
        \<or> (\<exists>maxPayload quota period statPayload.
              readFile files (cgroupPath m @ ''/cpu.max'') = Inr maxPayload
            \<and> validLimit maxPayload quota period
            \<and> readFile files (cgroupPath m @ ''/cpu.stat'') = Inr statPayload))
   \<and> (hasBaseline m \<longrightarrow> hasBaseline (run calls m))
   \<and> ((lastCPUUsageUsec (snd (readCPU files now m)), lastCPUSampleTime (snd (readCPU files now m)))
         = (lastCPUUsageUsec m, lastCPUSampleTime m)
       \<or> (\<exists>statPayload. readFile files (cgroupPath m @ ''/cpu.stat'') = Inr statPayload
            \<and> lastCPUUsageUsec (snd (readCPU files now m)) = parseCPUStatUsage statPayload
            \<and> lastCPUSampleTime (snd (readCPU files now m)) = now))"
proof (intro conjI)
  show "\<not> hasBaseline (NewMonitor [])" by (simp add: monitor_eval)
  show "\<not> hasBaseline (NewMonitor [WithCgroupPath path])" by (simp add: monitor_eval)
  show "hasBaseline (snd (readCPU files now m)) \<longleftrightarrow>
        hasBaseline m
        \<or> (\<exists>maxPayload quota period statPayload.
              readFile files (cgroupPath m @ ''/cpu.max'') = Inr maxPayload
            \<and> validLimit maxPayload quota period
            \<and> readFile files (cgroupPath m @ ''/cpu.stat'') = Inr statPayload)"
    by (rule readCPU_hasBaseline_iff)
  show "hasBaseline m \<longrightarrow> hasBaseline (run calls m)"
    by (simp add: run_hasBaseline)
  show "(lastCPUUsageUsec (snd (readCPU files now m)), lastCPUSampleTime (snd (readCPU files now m)))
         = (lastCPUUsageUsec m, lastCPUSampleTime m)
       \<or> (\<exists>statPayload. readFile files (cgroupPath m @ ''/cpu.stat'') = Inr statPayload
            \<and> lastCPUUsageUsec (snd (readCPU files now m)) = parseCPUStatUsage statPayload
            \<and> lastCPUSampleTime (snd (readCPU files now m)) = now)"
    by (rule readCPU_pair_update)
qed

theorem hasBaseline_invariant_witness:
  "hasBaseline (snd (readCPU
     (setupTestCgroup ''/tmp/cg''
        \<lparr>cpuMax = ''100000 100000'', cpuStat = ''usage_usec 1000000'', memoryMax = [], memoryCur = []\<rparr>)
     \<lparr>hasMonotonic = True, mono = 7000, wall = 7000\<rparr>
     (NewMonitor [WithCgroupPath ''/tmp/cg''])))
   \<and> hasBaseline (run
     [(CallStats, setupTestCgroup ''/tmp/cg''
          \<lparr>cpuMax = ''max 100000'', cpuStat = [], memoryMax = [], memoryCur = []\<rparr>,
        \<lparr>hasMonotonic = True, mono = 9000, wall = 9000\<rparr>),
      (CallMemoryPercent, setupTestCgroup ''/tmp/cg''
          \<lparr>cpuMax = [], cpuStat = [], memoryMax = [], memoryCur = []\<rparr>,
        \<lparr>hasMonotonic = True, mono = 9500, wall = 9500\<rparr>)]
     \<lparr>cgroupPath = ''/tmp/cg'', lastCPUUsageUsec = 1000000,
       lastCPUSampleTime = \<lparr>hasMonotonic = True, mono = 7000, wall = 7000\<rparr>, hasBaseline = True\<rparr>)"
proof -
  let ?m = "NewMonitor [WithCgroupPath ''/tmp/cg'']"
  let ?fx = "\<lparr>cpuMax = ''100000 100000'', cpuStat = ''usage_usec 1000000'', memoryMax = [], memoryCur = []\<rparr>"
  let ?m1 = "\<lparr>cgroupPath = ''/tmp/cg'', lastCPUUsageUsec = 1000000,
       lastCPUSampleTime = \<lparr>hasMonotonic = True, mono = 7000, wall = 7000\<rparr>, hasBaseline = True\<rparr>"
  have p: "cgroupPath ?m = ''/tmp/cg''" by (simp add: monitor_eval)
  have a: "readFile (setupTestCgroup ''/tmp/cg'' ?fx) (cgroupPath ?m @ ''/cpu.max'') = Inr ''100000 100000''"
    using fixture_cpu_max [of ?fx ?m "''/tmp/cg''"] p by (simp add: trim_one_core)
  have b: "readFile (setupTestCgroup ''/tmp/cg'' ?fx) (cgroupPath ?m @ ''/cpu.stat'')
      = Inr (TrimSpace ''usage_usec 1000000'')"
    using fixture_cpu_stat [of ?fx ?m "''/tmp/cg''"] p by simp
  have e: "\<exists>maxPayload quota period statPayload.
              readFile (setupTestCgroup ''/tmp/cg'' ?fx) (cgroupPath ?m @ ''/cpu.max'') = Inr maxPayload
            \<and> validLimit maxPayload quota period
            \<and> readFile (setupTestCgroup ''/tmp/cg'' ?fx) (cgroupPath ?m @ ''/cpu.stat'') = Inr statPayload"
    using a b one_core_valid by blast
  have h: "hasBaseline ?m1" by simp
  show ?thesis
    using hasBaseline_invariant [of "''/tmp/cg''" "setupTestCgroup ''/tmp/cg'' ?fx"
        "\<lparr>hasMonotonic = True, mono = 7000, wall = 7000\<rparr>" ?m]
      hasBaseline_invariant [of "''/tmp/cg''" _ _ ?m1] e h
    by blast
qed

section \<open>The usage counter of \<open>cpu.stat\<close>\<close>













lemma HasPrefix_usage: "HasPrefix (''usage_usec '' @ s) ''usage_usec ''"
  by (simp add: HasPrefix_def)












section \<open>Rounding\<close>






section \<open>The memory percentage\<close>




















end
